theory Spec2Isabelle
  imports Main
begin

section \<open>Data model of the dashboard (apps/web/app/dashboard/page.tsx, lines 8-25)\<close>

text \<open>
  The TypeScript types of the page are records. Fields the page declares optional or
  nullable are \<open>option\<close>s. Fields called \<open>id\<close>, \<open>platform\<close> and \<open>created_at\<close> occur in
  several types and carry the name of their type as a prefix here. Numbers are \<open>int\<close>
  (identifiers \<open>nat\<close>): no operation of the page computes with them.
\<close>

datatype platform = instagram | facebook

record Config =
  approval_required :: bool
  interval_days :: int
  max_candidates :: int
  pick_top_n :: int

record Source =
  source_id :: nat
  source_platform :: platform
  handle :: string
  enabled :: bool
  source_created_at :: string

record Gen =
  title_en :: string
  caption_en :: string
  hashtags_en :: "string list"

record Candidate =
  candidate_id :: nat
  candidate_platform :: platform
  original_url :: string
  caption_raw :: "string option"
  media_type :: string
  media_url :: "string option"
  posted_at_source :: "string option"
  engagement_score :: int
  status :: string
  candidate_created_at :: string
  generated :: "Gen option"

record Stats =
  total_candidates :: int
  total_published :: int
  pending_approval :: int
  last_run_at :: "string option"

record LogEvent =
  log_id :: nat
  level :: string
  message :: string
  job_id :: "nat option"
  log_created_at :: string

record Me =
  email :: string
  workspace_name :: string

record Enqueued =
  enqueued_job_id :: nat

datatype tab = tab_overview | tab_config | tab_sources | tab_queue | tab_logs

text \<open>The \<open>useState\<close> cells of \<open>DashboardPage\<close> (lines 35-46 and 98-99), with their initial values.\<close>

record Dashboard =
  tab :: tab
  me :: "Me option"
  cfg :: "Config option"
  sources :: "Source list"
  posts :: "Candidate list"
  stats :: "Stats option"
  logs :: "LogEvent list"
  runAuto :: bool
  runLoading :: bool
  err :: "string option"
  newPlatform :: platform
  newHandle :: string

definition initial_page :: Dashboard where
  "initial_page =
     \<lparr>tab = tab_overview, me = None, cfg = None, sources = [], posts = [], stats = None,
      logs = [], runAuto = False, runLoading = False, err = None,
      newPlatform = instagram, newHandle = []\<rparr>"


section \<open>The HTTP boundary (components/api)\<close>

text \<open>
  A JavaScript \<open>Error\<close> value: its \<open>name\<close> (the class of the error) and its \<open>message\<close>.
  \<open>new Error(m)\<close> has the name \<open>Error\<close>.
\<close>

datatype error = Error (err_name: string) (err_message: string)

definition new_Error :: "string \<Rightarrow> error" where
  "new_Error m = Error ''Error'' m"

text \<open>
  What \<open>fetch\<close> hands back: the promise is rejected (transport failure), or it resolves to
  a response with a status, a body text (\<open>res.text()\<close>) and the outcome of decoding the
  body as JSON (\<open>res.json()\<close> rejects on a body that is not JSON). \<open>res.ok\<close> is the
  platform's property: the status lies in 200..299.
\<close>

record 'a Response =
  res_status :: nat
  res_text :: string
  res_json :: "error + 'a"

definition ok :: "'a Response \<Rightarrow> bool" where
  "ok res = (200 \<le> res_status res \<and> res_status res \<le> 299)"

datatype 'a fetch_outcome = fetch_rejected error | fetch_resolved "'a Response"

text \<open>A reply of the server to one request: when it settles, and how.\<close>

record 'a reply =
  arrives :: nat
  outcome :: "'a fetch_outcome"

text \<open>
  The objects the page passes to \<open>JSON.stringify\<close> as request bodies, and the options
  its calls of \<open>apiFetch\<close> pass: a method and a body, or nothing (no call passes headers).
\<close>

datatype body =
    body_config Config
  | body_source platform string bool
  | body_run bool
  | body_empty

record RequestInit =
  init_method :: "string option"
  init_body :: "body option"

definition GET :: RequestInit where
  "GET = \<lparr>init_method = None, init_body = None\<rparr>"

definition POST :: "body \<Rightarrow> RequestInit" where
  "POST b = \<lparr>init_method = Some ''POST'', init_body = Some b\<rparr>"

record request =
  url :: string
  req_method :: "string option"
  req_body :: "body option"
  req_headers :: "(string \<times> string) list"
  req_cache :: string

text \<open>
  Everything outside the page's own state that the code reads or writes: the browser's
  \<open>localStorage\<close> (\<open>None\<close> where \<open>window\<close> is undefined), the configured base URL, the
  router's location, the requests sent so far, the promise rejections nobody caught, and
  the period of the polling timer while it is registered.
\<close>

record world =
  page :: Dashboard
  window :: "(string \<rightharpoonup> string) option"
  NEXT_PUBLIC_API_URL :: "string option"
  location :: string
  sent :: "request list"
  unhandled :: "error list"
  poll_timer :: "nat option"

definition API_URL :: "world \<Rightarrow> string" where
  "API_URL w = (case NEXT_PUBLIC_API_URL w of
       Some u \<Rightarrow> if u \<noteq> [] then u else ''http://localhost:8000''
     | None \<Rightarrow> ''http://localhost:8000'')"

definition getToken :: "world \<Rightarrow> string option" where
  "getToken w = (case window w of None \<Rightarrow> None | Some ls \<Rightarrow> ls ''token'')"

definition setToken :: "string \<Rightarrow> world \<Rightarrow> world" where
  "setToken t w = (case window w of
       None \<Rightarrow> w
     | Some ls \<Rightarrow> w\<lparr>window := Some (ls(''token'' \<mapsto> t))\<rparr>)"

definition clearToken :: "world \<Rightarrow> world" where
  "clearToken w = (case window w of
       None \<Rightarrow> w
     | Some ls \<Rightarrow> w\<lparr>window := Some (ls(''token'' := None))\<rparr>)"

text \<open>Decimal digits of a number, as a template literal or string concatenation prints it.\<close>

fun string_of_nat :: "nat \<Rightarrow> string" where
  "string_of_nat n =
     (if n < 10 then [''0123456789'' ! n]
      else string_of_nat (n div 10) @ [''0123456789'' ! (n mod 10)])"

declare string_of_nat.simps [simp del]

text \<open>
  \<open>apiFetch\<close>, first half (lines 49-53): the request it builds and sends. The content
  type is always set; the bearer header only for a token that is present and not the
  empty string.
\<close>

definition apiFetch_request :: "world \<Rightarrow> string \<Rightarrow> RequestInit \<Rightarrow> request" where
  "apiFetch_request w path init =
     (let token = getToken w;
          headers = [(''Content-Type'', ''application/json'')] @
                    (case token of
                       Some t \<Rightarrow> if t \<noteq> [] then [(''Authorization'', ''Bearer '' @ t)] else []
                     | None \<Rightarrow> [])
      in \<lparr>url = API_URL w @ path, req_method = init_method init,
          req_body = init_body init, req_headers = headers,
          req_cache = ''no-store''\<rparr>)"

definition apiFetch_send :: "world \<Rightarrow> string \<Rightarrow> RequestInit \<Rightarrow> world" where
  "apiFetch_send w path init = w\<lparr>sent := sent w @ [apiFetch_request w path init]\<rparr>"

text \<open>
  \<open>apiFetch\<close>, second half (lines 53-58): what the caller gets. A rejected \<open>fetch\<close> rejects
  the call with the platform's error; a response that is not \<open>ok\<close> throws
  \<open>new Error(txt || `HTTP ${res.status}`)\<close>; otherwise the decoded JSON is returned.
\<close>

definition apiFetch_result :: "'a fetch_outcome \<Rightarrow> error + 'a" where
  "apiFetch_result out =
     (case out of
        fetch_rejected e \<Rightarrow> Inl e
      | fetch_resolved res \<Rightarrow>
          if \<not> ok res then
            Inl (new_Error (if res_text res \<noteq> [] then res_text res
                            else ''HTTP '' @ string_of_nat (res_status res)))
          else res_json res)"

text \<open>The whole call: the world after sending, and the settled promise with its time.\<close>

definition apiFetch :: "world \<Rightarrow> string \<Rightarrow> RequestInit \<Rightarrow> 'a reply \<Rightarrow> world \<times> nat \<times> (error + 'a)" where
  "apiFetch w path init rep =
     (apiFetch_send w path init, arrives rep, apiFetch_result (outcome rep))"

text \<open>
  \<open>Promise.all\<close> on two promises: fulfilled once both are, with both values; rejected with
  the rejection that settles first (the left one, should both carry the same time).
  Longer arrays nest it to the right.
\<close>

definition Promise_all :: "nat \<times> (error + 'a) \<Rightarrow> nat \<times> (error + 'b) \<Rightarrow> nat \<times> (error + 'a \<times> 'b)" where
  "Promise_all p q =
     (case (snd p, snd q) of
        (Inr a, Inr b) \<Rightarrow> (max (fst p) (fst q), Inr (a, b))
      | (Inl e, Inr b) \<Rightarrow> (fst p, Inl e)
      | (Inr a, Inl e) \<Rightarrow> (fst q, Inl e)
      | (Inl e, Inl e') \<Rightarrow> if fst q < fst p then (fst q, Inl e') else (fst p, Inl e))"

text \<open>
  \<open>String(e?.message || e)\<close> of the catch blocks: the message when it is not empty,
  otherwise \<open>Error.prototype.toString\<close>.
\<close>

definition toString :: "error \<Rightarrow> string" where
  "toString e =
     (if err_name e = [] then err_message e
      else if err_message e = [] then err_name e
      else err_name e @ '': '' @ err_message e)"

definition String_of :: "error \<Rightarrow> string" where
  "String_of e = (if err_message e \<noteq> [] then err_message e else toString e)"


section \<open>The operations of the dashboard\<close>

subsection \<open>State setters\<close>

definition setTab :: "tab \<Rightarrow> world \<Rightarrow> world" where
  "setTab v w = w\<lparr>page := (page w)\<lparr>tab := v\<rparr>\<rparr>"

definition setMe :: "Me option \<Rightarrow> world \<Rightarrow> world" where
  "setMe v w = w\<lparr>page := (page w)\<lparr>me := v\<rparr>\<rparr>"

definition setCfg :: "Config option \<Rightarrow> world \<Rightarrow> world" where
  "setCfg v w = w\<lparr>page := (page w)\<lparr>cfg := v\<rparr>\<rparr>"

definition setSources :: "Source list \<Rightarrow> world \<Rightarrow> world" where
  "setSources v w = w\<lparr>page := (page w)\<lparr>sources := v\<rparr>\<rparr>"

definition setPosts :: "Candidate list \<Rightarrow> world \<Rightarrow> world" where
  "setPosts v w = w\<lparr>page := (page w)\<lparr>posts := v\<rparr>\<rparr>"

definition setStats :: "Stats option \<Rightarrow> world \<Rightarrow> world" where
  "setStats v w = w\<lparr>page := (page w)\<lparr>stats := v\<rparr>\<rparr>"

definition setLogs :: "LogEvent list \<Rightarrow> world \<Rightarrow> world" where
  "setLogs v w = w\<lparr>page := (page w)\<lparr>logs := v\<rparr>\<rparr>"

definition setRunAuto :: "bool \<Rightarrow> world \<Rightarrow> world" where
  "setRunAuto v w = w\<lparr>page := (page w)\<lparr>runAuto := v\<rparr>\<rparr>"

definition setRunLoading :: "bool \<Rightarrow> world \<Rightarrow> world" where
  "setRunLoading v w = w\<lparr>page := (page w)\<lparr>runLoading := v\<rparr>\<rparr>"

definition setErr :: "string option \<Rightarrow> world \<Rightarrow> world" where
  "setErr v w = w\<lparr>page := (page w)\<lparr>err := v\<rparr>\<rparr>"

definition setNewPlatform :: "platform \<Rightarrow> world \<Rightarrow> world" where
  "setNewPlatform v w = w\<lparr>page := (page w)\<lparr>newPlatform := v\<rparr>\<rparr>"

definition setNewHandle :: "string \<Rightarrow> world \<Rightarrow> world" where
  "setNewHandle v w = w\<lparr>page := (page w)\<lparr>newHandle := v\<rparr>\<rparr>"

definition r_replace :: "string \<Rightarrow> world \<Rightarrow> world" where
  "r_replace p w = w\<lparr>location := p\<rparr>"

subsection \<open>pending (line 48)\<close>

definition pending :: "Candidate list \<Rightarrow> Candidate list" where
  "pending ps = filter (\<lambda>p. status p = ''awaiting_approval'') ps"

subsection \<open>loadAll (lines 50-69)\<close>

text \<open>The catch block: report, clear the credential, go to the login page.\<close>

definition loadAll_catch :: "error \<Rightarrow> world \<Rightarrow> world" where
  "loadAll_catch e w = r_replace ''/login'' (clearToken (setErr (Some (String_of e)) w))"

definition loadAll ::
  "world \<Rightarrow> Me reply \<Rightarrow> Config reply \<Rightarrow> Source list reply \<Rightarrow> Stats reply \<Rightarrow>
   LogEvent list reply \<Rightarrow> Candidate list reply \<Rightarrow> world" where
  "loadAll w rm rc rs rst rl rp =
     (let w1 = setErr None w;
          (w2, pm) = apiFetch w1 ''/me'' GET rm
      in case snd pm of
           Inl e \<Rightarrow> loadAll_catch e w2
         | Inr m \<Rightarrow>
             (let w3 = setMe (Some \<lparr>email = email m, workspace_name = workspace_name m\<rparr>) w2;
                  (w4, pc) = apiFetch w3 ''/api/config'' GET rc;
                  (w5, ps) = apiFetch w4 ''/api/sources'' GET rs;
                  (w6, pst) = apiFetch w5 ''/api/stats'' GET rst;
                  (w7, pl) = apiFetch w6 ''/api/logs'' GET rl;
                  (w8, pp) = apiFetch w7 ''/api/posts'' GET rp
              in case snd (Promise_all pc (Promise_all ps (Promise_all pst (Promise_all pl pp)))) of
                   Inl e \<Rightarrow> loadAll_catch e w8
                 | Inr (c, s, st, l, p) \<Rightarrow>
                     setRunAuto (\<not> approval_required c)
                       (setPosts p (setLogs l (setStats (Some st) (setSources s
                         (setCfg (Some c) w8)))))))"

subsection \<open>The polling effect (lines 74-86)\<close>

definition mount_polling :: "world \<Rightarrow> world" where
  "mount_polling w = w\<lparr>poll_timer := Some 4000\<rparr>"

definition unmount_polling :: "world \<Rightarrow> world" where
  "unmount_polling w = w\<lparr>poll_timer := None\<rparr>"

text \<open>One firing of the timer's callback; the empty catch block keeps the world as it is.\<close>

definition poll_tick ::
  "world \<Rightarrow> LogEvent list reply \<Rightarrow> Candidate list reply \<Rightarrow> Stats reply \<Rightarrow> world" where
  "poll_tick w rl rp rst =
     (let (w1, pl) = apiFetch w ''/api/logs'' GET rl;
          (w2, pp) = apiFetch w1 ''/api/posts'' GET rp;
          (w3, pst) = apiFetch w2 ''/api/stats'' GET rst
      in case snd (Promise_all pl (Promise_all pp pst)) of
           Inl e \<Rightarrow> w3
         | Inr (l, p, st) \<Rightarrow> setStats (Some st) (setPosts p (setLogs l w3)))"

subsection \<open>saveConfig (lines 88-96)\<close>

definition saveConfig :: "world \<Rightarrow> Config reply \<Rightarrow> world" where
  "saveConfig w rep =
     (case cfg (page w) of
        None \<Rightarrow> w
      | Some c \<Rightarrow>
          (let w1 = setErr None w;
               (w2, p) = apiFetch w1 ''/api/config'' (POST (body_config c)) rep
           in case snd p of
                Inr saved \<Rightarrow> setRunAuto (\<not> approval_required saved) (setCfg (Some saved) w2)
              | Inl e \<Rightarrow> setErr (Some (String_of e)) w2))"

subsection \<open>addSource (lines 100-108)\<close>

definition addSource :: "world \<Rightarrow> Source reply \<Rightarrow> Source list reply \<Rightarrow> world" where
  "addSource w rep rep' =
     (let w1 = setErr None w;
          (w2, p) = apiFetch w1 ''/api/sources''
                      (POST (body_source (newPlatform (page w)) (newHandle (page w)) True)) rep
      in case snd p of
           Inl e \<Rightarrow> setErr (Some (String_of e)) w2
         | Inr _ \<Rightarrow>
             (let w3 = setNewHandle [] w2;
                  (w4, p') = apiFetch w3 ''/api/sources'' GET rep'
              in case snd p' of
                   Inl e \<Rightarrow> setErr (Some (String_of e)) w4
                 | Inr s \<Rightarrow> setSources s w4))"

subsection \<open>runNow (lines 110-118)\<close>

text \<open>
  The call runs up to its \<open>await\<close> when it is invoked (\<open>runNow_begin\<close>: the request is on
  its way) and goes on when the reply settles (\<open>runNow_settle\<close>). \<open>runNow\<close> is one call
  from invocation to completion.
\<close>

definition runNow_begin :: "world \<Rightarrow> world" where
  "runNow_begin w =
     apiFetch_send (setRunLoading True (setErr None w)) ''/api/run''
       (POST (body_run (runAuto (page w))))"

definition runNow_settle :: "world \<Rightarrow> Enqueued reply \<Rightarrow> world" where
  "runNow_settle w rep =
     setRunLoading False
       (case apiFetch_result (outcome rep) of
          Inr _ \<Rightarrow> setTab tab_logs w
        | Inl e \<Rightarrow> setErr (Some (String_of e)) w)"

definition runNow :: "world \<Rightarrow> Enqueued reply \<Rightarrow> world" where
  "runNow w rep = runNow_settle (runNow_begin w) rep"

subsection \<open>approve (lines 120-127)\<close>

definition approve :: "nat \<Rightarrow> world \<Rightarrow> unit reply \<Rightarrow> Candidate list reply \<Rightarrow> world" where
  "approve i w rep rep' =
     (let w1 = setErr None w;
          (w2, p) = apiFetch w1 (''/api/posts/'' @ string_of_nat i @ ''/approve'')
                      (POST body_empty) rep
      in case snd p of
           Inl e \<Rightarrow> setErr (Some (String_of e)) w2
         | Inr _ \<Rightarrow>
             (let (w3, p') = apiFetch w2 ''/api/posts'' GET rep'
              in case snd p' of
                   Inl e \<Rightarrow> setErr (Some (String_of e)) w3
                 | Inr ps \<Rightarrow> setPosts ps w3))"

subsection \<open>clearLogs (lines 129-133)\<close>

text \<open>No try block here: a rejection leaves the function and nobody handles it.\<close>

definition clearLogs :: "world \<Rightarrow> unit reply \<Rightarrow> LogEvent list reply \<Rightarrow> world" where
  "clearLogs w rep rep' =
     (let (w1, p) = apiFetch w ''/api/logs/clear'' (POST body_empty) rep
      in case snd p of
           Inl e \<Rightarrow> w1\<lparr>unhandled := unhandled w1 @ [e]\<rparr>
         | Inr _ \<Rightarrow>
             (let (w2, p') = apiFetch w1 ''/api/logs'' GET rep'
              in case snd p' of
                   Inl e \<Rightarrow> w2\<lparr>unhandled := unhandled w2 @ [e]\<rparr>
                 | Inr l \<Rightarrow> setLogs l w2))"

subsection \<open>logout (lines 135-138)\<close>

definition logout :: "world \<Rightarrow> world" where
  "logout w = r_replace ''/login'' (clearToken w)"

subsection \<open>The change handlers of the form controls\<close>

text \<open>
  The mode select of the overview (line 180) and the settings form (lines 207-223), which
  is rendered only while a Config is loaded. The number inputs hand over the value
  already coerced by \<open>Number\<close>.
\<close>

definition onChange_mode :: "string \<Rightarrow> world \<Rightarrow> world" where
  "onChange_mode v w = setRunAuto (v = ''auto'') w"

definition onChange_approval_required :: "string \<Rightarrow> world \<Rightarrow> world" where
  "onChange_approval_required v w =
     (case cfg (page w) of
        None \<Rightarrow> w
      | Some c \<Rightarrow> setCfg (Some (c\<lparr>approval_required := (v = ''yes'')\<rparr>)) w)"

definition onChange_interval_days :: "int \<Rightarrow> world \<Rightarrow> world" where
  "onChange_interval_days n w =
     (case cfg (page w) of None \<Rightarrow> w | Some c \<Rightarrow> setCfg (Some (c\<lparr>interval_days := n\<rparr>)) w)"

definition onChange_max_candidates :: "int \<Rightarrow> world \<Rightarrow> world" where
  "onChange_max_candidates n w =
     (case cfg (page w) of None \<Rightarrow> w | Some c \<Rightarrow> setCfg (Some (c\<lparr>max_candidates := n\<rparr>)) w)"

definition onChange_pick_top_n :: "int \<Rightarrow> world \<Rightarrow> world" where
  "onChange_pick_top_n n w =
     (case cfg (page w) of None \<Rightarrow> w | Some c \<Rightarrow> setCfg (Some (c\<lparr>pick_top_n := n\<rparr>)) w)"


section \<open>Events of the page and what the page offers\<close>

text \<open>
  Everything that can happen to the page, each with the replies the server gives to the
  requests it causes. Mounting runs both effects (lines 71 and 74-86): the initial load
  and the registration of the timer; unmounting releases the timer, and its callback
  runs only while it is registered. Handlers run from invocation to completion; only
  \<open>runNow\<close> is also given in its two halves, for calls that overlap.
\<close>

datatype event =
    mount "Me reply" "Config reply" "Source list reply" "Stats reply"
      "LogEvent list reply" "Candidate list reply"
  | timer_fires "LogEvent list reply" "Candidate list reply" "Stats reply"
  | do_saveConfig "Config reply"
  | do_addSource "Source reply" "Source list reply"
  | do_runNow "Enqueued reply"
  | do_approve nat "unit reply" "Candidate list reply"
  | do_clearLogs "unit reply" "LogEvent list reply"
  | do_logout
  | do_setTab tab
  | change_mode string
  | change_approval_required string
  | change_interval_days int
  | change_max_candidates int
  | change_pick_top_n int
  | change_newPlatform platform
  | change_newHandle string
  | unmount

fun step :: "world \<Rightarrow> event \<Rightarrow> world" where
  "step w (mount rm rc rs rst rl rp) = loadAll (mount_polling w) rm rc rs rst rl rp"
| "step w (timer_fires rl rp rst) =
     (case poll_timer w of None \<Rightarrow> w | Some _ \<Rightarrow> poll_tick w rl rp rst)"
| "step w (do_saveConfig r) = saveConfig w r"
| "step w (do_addSource r r') = addSource w r r'"
| "step w (do_runNow r) = runNow w r"
| "step w (do_approve i r r') = approve i w r r'"
| "step w (do_clearLogs r r') = clearLogs w r r'"
| "step w do_logout = logout w"
| "step w (do_setTab t) = setTab t w"
| "step w (change_mode v) = onChange_mode v w"
| "step w (change_approval_required v) = onChange_approval_required v w"
| "step w (change_interval_days n) = onChange_interval_days n w"
| "step w (change_max_candidates n) = onChange_max_candidates n w"
| "step w (change_pick_top_n n) = onChange_pick_top_n n w"
| "step w (change_newPlatform v) = setNewPlatform v w"
| "step w (change_newHandle v) = setNewHandle v w"
| "step w unmount = unmount_polling w"

definition run :: "world \<Rightarrow> event list \<Rightarrow> world" where
  "run w es = foldl step w es"

text \<open>
  The buttons of the rendered page (lines 140-325), each with its click handler and
  whether it is disabled. \<open>trim\<close> removes white space at both ends of a string.
\<close>

datatype click =
    click_logout
  | click_setTab tab
  | click_runNow
  | click_saveConfig
  | click_addSource
  | click_approve nat
  | click_clearLogs

record Button =
  onClick :: click
  disabled :: bool

definition button :: "click \<Rightarrow> Button" where
  "button c = \<lparr>onClick = c, disabled = False\<rparr>"

definition white_space :: "char \<Rightarrow> bool" where
  "white_space c = (c \<in> set [CHR 0x09, CHR 0x0A, CHR 0x0B, CHR 0x0C, CHR 0x0D, CHR 0x20, CHR 0xA0])"

definition trim :: "string \<Rightarrow> string" where
  "trim s = rev (dropWhile white_space (rev (dropWhile white_space s)))"

text \<open>One card of the queue (lines 271-299).\<close>

definition queue_card_buttons :: "Candidate \<Rightarrow> Button list" where
  "queue_card_buttons p =
     (if status p = ''awaiting_approval'' then [button (click_approve (candidate_id p))] else [])"

definition render_buttons :: "Dashboard \<Rightarrow> Button list" where
  "render_buttons s =
     [button click_logout] @
     map (\<lambda>t. button (click_setTab t)) [tab_overview, tab_config, tab_sources, tab_queue, tab_logs] @
     (if tab s = tab_overview
      then [\<lparr>onClick = click_runNow, disabled = runLoading s\<rparr>, button (click_setTab tab_queue)]
      else []) @
     (if tab s = tab_config \<and> cfg s \<noteq> None then [button click_saveConfig] else []) @
     (if tab s = tab_sources
      then [\<lparr>onClick = click_addSource, disabled = (trim (newHandle s) = [])\<rparr>]
      else []) @
     (if tab s = tab_queue then concat (map queue_card_buttons (posts s)) else []) @
     (if tab s = tab_logs then [button click_clearLogs] else [])"

text \<open>The text of the card "Manual approvals" (line 195).\<close>

definition manual_approvals_text :: "Dashboard \<Rightarrow> string" where
  "manual_approvals_text s =
     (if length (pending (posts s)) \<noteq> 0
      then ''You have '' @ string_of_nat (length (pending (posts s))) @ '' posts waiting.''
      else ''No pending approvals.'')"


section \<open>Notions used in the statements\<close>

text \<open>Whether a call of \<open>apiFetch\<close> with this reply is fulfilled, and the error it throws otherwise.\<close>

definition fulfilled :: "'a reply \<Rightarrow> bool" where
  "fulfilled r = (case apiFetch_result (outcome r) of Inr _ \<Rightarrow> True | Inl _ \<Rightarrow> False)"

definition rejection :: "'a reply \<Rightarrow> error option" where
  "rejection r = (case apiFetch_result (outcome r) of Inr _ \<Rightarrow> None | Inl e \<Rightarrow> Some e)"

text \<open>
  The events that reset or set the run mode when they happen in the world \<open>w\<close>: an initial
  load whose six fetches are all fulfilled, a save that is sent (a Config is cached) and
  fulfilled, and a change of the mode select. A load or a save that fails is none of
  them. \<open>no_reset w es\<close>: none of the events \<open>es\<close>, happening one after the other from \<open>w\<close>
  on, is such an event.
\<close>

fun resets_runAuto :: "world \<Rightarrow> event \<Rightarrow> bool" where
  "resets_runAuto w (mount rm rc rs rst rl rp) =
     (fulfilled rm \<and> fulfilled rc \<and> fulfilled rs \<and> fulfilled rst \<and> fulfilled rl \<and> fulfilled rp)"
| "resets_runAuto w (do_saveConfig r) = (cfg (page w) \<noteq> None \<and> fulfilled r)"
| "resets_runAuto w (change_mode v) = True"
| "resets_runAuto w e = False"

fun no_reset :: "world \<Rightarrow> event list \<Rightarrow> bool" where
  "no_reset w [] = True"
| "no_reset w (e # es) = (\<not> resets_runAuto w e \<and> no_reset (step w e) es)"

text \<open>The events that write the cached Config and the list of sources.\<close>

fun is_mount :: "event \<Rightarrow> bool" where
  "is_mount (mount rm rc rs rst rl rp) = True"
| "is_mount e = False"

fun is_saveConfig :: "event \<Rightarrow> bool" where
  "is_saveConfig (do_saveConfig r) = True"
| "is_saveConfig e = False"

fun is_addSource :: "event \<Rightarrow> bool" where
  "is_addSource (do_addSource r r') = True"
| "is_addSource e = False"

fun edits_settings :: "event \<Rightarrow> bool" where
  "edits_settings (change_approval_required v) = True"
| "edits_settings (change_interval_days n) = True"
| "edits_settings (change_max_candidates n) = True"
| "edits_settings (change_pick_top_n n) = True"
| "edits_settings e = False"

text \<open>Concrete inputs for the examples.\<close>

definition ok_reply :: "'a \<Rightarrow> 'a reply" where
  "ok_reply v =
     \<lparr>arrives = 1, outcome = fetch_resolved \<lparr>res_status = 200, res_text = [], res_json = Inr v\<rparr>\<rparr>"

definition failed_reply :: "nat \<Rightarrow> string \<Rightarrow> 'a reply" where
  "failed_reply st txt =
     \<lparr>arrives = 1,
      outcome = fetch_resolved \<lparr>res_status = st, res_text = txt,
                                res_json = Inl (Error ''SyntaxError'' ''Unexpected token'')\<rparr>\<rparr>"

definition candidate :: "nat \<Rightarrow> string \<Rightarrow> Candidate" where
  "candidate i st =
     \<lparr>candidate_id = i, candidate_platform = instagram, original_url = ''https://example.org/p'',
      caption_raw = None, media_type = ''image'', media_url = None, posted_at_source = None,
      engagement_score = 0, status = st, candidate_created_at = ''2024-01-01T00:00:00Z'',
      generated = None\<rparr>"

definition config1 :: Config where
  "config1 = \<lparr>approval_required = True, interval_days = 1, max_candidates = 20, pick_top_n = 5\<rparr>"

definition stats0 :: Stats where
  "stats0 = \<lparr>total_candidates = 0, total_published = 0, pending_approval = 0, last_run_at = None\<rparr>"

definition me1 :: Me where
  "me1 = \<lparr>email = ''admin@example.com'', workspace_name = ''Default''\<rparr>"

definition source1 :: Source where
  "source1 =
     \<lparr>source_id = 1, source_platform = instagram, handle = ''natgeo'', enabled = True,
      source_created_at = ''2024-01-01T00:00:00Z''\<rparr>"

definition world1 :: world where
  "world1 =
     \<lparr>page = initial_page\<lparr>cfg := Some config1, posts := [candidate 42 ''awaiting_approval'']\<rparr>,
      window = Some [''token'' \<mapsto> ''secret''], NEXT_PUBLIC_API_URL = None,
      location = ''/dashboard'', sent = [], unhandled = [], poll_timer = Some 4000\<rparr>"

definition ten_candidates :: "Candidate list" where
  "ten_candidates =
     [candidate 1 ''new'', candidate 2 ''awaiting_approval'', candidate 3 ''selected'',
      candidate 4 ''generated'', candidate 5 ''awaiting_approval'', candidate 6 ''approved'',
      candidate 7 ''published'', candidate 8 ''awaiting_approval'', candidate 9 ''published'',
      candidate 10 ''new'']"


section \<open>Basic facts\<close>

lemmas setters =
  setTab_def setMe_def setCfg_def setSources_def setPosts_def setStats_def setLogs_def
  setRunAuto_def setRunLoading_def setErr_def setNewPlatform_def setNewHandle_def
  r_replace_def

subsection \<open>Requests\<close>

lemma apiFetch_send_fields [simp]:
  "page (apiFetch_send w path init) = page w"
  "window (apiFetch_send w path init) = window w"
  "location (apiFetch_send w path init) = location w"
  "unhandled (apiFetch_send w path init) = unhandled w"
  "poll_timer (apiFetch_send w path init) = poll_timer w"
  "NEXT_PUBLIC_API_URL (apiFetch_send w path init) = NEXT_PUBLIC_API_URL w"
  "sent (apiFetch_send w path init) = sent w @ [apiFetch_request w path init]"
  by (simp_all add: apiFetch_send_def)

text \<open>A request depends on the stored token and the base URL only.\<close>

lemma apiFetch_request_cong:
  "window w' = window w \<Longrightarrow> NEXT_PUBLIC_API_URL w' = NEXT_PUBLIC_API_URL w \<Longrightarrow>
   apiFetch_request w' path init = apiFetch_request w path init"
  by (simp add: apiFetch_request_def getToken_def API_URL_def)

lemma apiFetch_request_simps [simp]:
  "apiFetch_request (apiFetch_send w p i) path init = apiFetch_request w path init"
  "apiFetch_request (setErr a w) path init = apiFetch_request w path init"
  "apiFetch_request (setMe b w) path init = apiFetch_request w path init"
  "apiFetch_request (setRunLoading c w) path init = apiFetch_request w path init"
  "apiFetch_request (setNewHandle d w) path init = apiFetch_request w path init"
  "apiFetch_request (setTab t w) path init = apiFetch_request w path init"
  "apiFetch_request (setRunAuto v w) path init = apiFetch_request w path init"
  "apiFetch_request (setCfg cc w) path init = apiFetch_request w path init"
  by (rule apiFetch_request_cong; simp add: setters)+

lemma req_body_request [simp]:
  "req_body (apiFetch_request w path (POST b)) = Some b"
  by (simp add: apiFetch_request_def POST_def Let_def)

lemma setter_sent [simp]:
  "sent (setErr a w) = sent w" "sent (setPosts b w) = sent w" "sent (setLogs c w) = sent w"
  "sent (setStats d w) = sent w" "sent (setTab t w) = sent w" "sent (setRunLoading f w) = sent w"
  "sent (setRunAuto g w) = sent w" "sent (setCfg h w) = sent w" "sent (setSources k w) = sent w"
  "sent (setNewHandle n w) = sent w" "sent (setMe m w) = sent w"
  by (simp_all add: setters)

subsection \<open>Replies\<close>

lemma fulfilled_iff: "fulfilled r \<longleftrightarrow> (\<exists>v. apiFetch_result (outcome r) = Inr v)"
  by (simp add: fulfilled_def split: sum.splits)

lemma not_fulfilled_iff: "\<not> fulfilled r \<longleftrightarrow> (\<exists>e. apiFetch_result (outcome r) = Inl e)"
  by (simp add: fulfilled_def split: sum.splits)

lemma rejection_iff: "rejection r = Some e \<longleftrightarrow> apiFetch_result (outcome r) = Inl e"
  by (simp add: rejection_def split: sum.splits)

lemma Promise_all_Inr:
  "snd (Promise_all p q) = Inr ab \<longleftrightarrow> snd p = Inr (fst ab) \<and> snd q = Inr (snd ab)"
  by (cases ab) (auto simp: Promise_all_def split: sum.splits prod.splits)

lemma Promise_all_Inl:
  "snd (Promise_all p q) = Inl e \<Longrightarrow> snd p = Inl e \<or> snd q = Inl e"
  by (auto simp: Promise_all_def split: sum.splits prod.splits if_splits)

lemma Promise_all_Inl_iff:
  "(\<exists>e. snd (Promise_all p q) = Inl e) \<longleftrightarrow> (\<exists>e. snd p = Inl e) \<or> (\<exists>e. snd q = Inl e)"
  by (auto simp: Promise_all_def split: sum.splits prod.splits)

lemma failed_reply_result [simp]:
  "apiFetch_result (outcome (failed_reply 500 txt)) =
     Inl (Error ''Error'' (if txt \<noteq> [] then txt else ''HTTP 500''))"
  by (simp add: failed_reply_def apiFetch_result_def ok_def new_Error_def string_of_nat.simps)

lemma ok_reply_result [simp]: "apiFetch_result (outcome (ok_reply v)) = Inr v"
  by (simp add: ok_reply_def apiFetch_result_def ok_def)

lemma world1_fields [simp]:
  "window world1 = Some [''token'' \<mapsto> ''secret'']" "NEXT_PUBLIC_API_URL world1 = None"
  "sent world1 = []" "unhandled world1 = []" "poll_timer world1 = Some 4000"
  "location world1 = ''/dashboard''"
  "page world1 = initial_page\<lparr>cfg := Some config1, posts := [candidate 42 ''awaiting_approval'']\<rparr>"
  by (simp_all add: world1_def)

subsection \<open>The credential\<close>

lemma getToken_clearToken [simp]: "getToken (clearToken w) = None"
  by (simp add: getToken_def clearToken_def split: option.splits)

lemma clearToken_fields [simp]:
  "page (clearToken w) = page w" "location (clearToken w) = location w"
  "sent (clearToken w) = sent w" "poll_timer (clearToken w) = poll_timer w"
  "unhandled (clearToken w) = unhandled w"
  by (simp_all add: clearToken_def split: option.splits)

lemma loadAll_catch_fields [simp]:
  "getToken (loadAll_catch e w) = None"
  "location (loadAll_catch e w) = ''/login''"
  "page (loadAll_catch e w) = (page w)\<lparr>err := Some (String_of e)\<rparr>"
  "sent (loadAll_catch e w) = sent w"
  by (simp_all add: loadAll_catch_def getToken_def clearToken_def setters split: option.splits)

subsection \<open>loadAll: the ways it can go\<close>

lemma loadAll_me_rejected:
  "apiFetch_result (outcome rm) = Inl e \<Longrightarrow>
   loadAll w rm rc rs rst rl rp = loadAll_catch e (apiFetch_send (setErr None w) ''/me'' GET)"
  by (simp add: loadAll_def apiFetch_def Let_def)

lemma loadAll_fulfilled:
  assumes "apiFetch_result (outcome rm) = Inr m" "apiFetch_result (outcome rc) = Inr c"
    "apiFetch_result (outcome rs) = Inr s" "apiFetch_result (outcome rst) = Inr st"
    "apiFetch_result (outcome rl) = Inr l" "apiFetch_result (outcome rp) = Inr p"
  shows "page (loadAll w rm rc rs rst rl rp) =
           (page w)\<lparr>err := None, me := Some m, cfg := Some c, sources := s, stats := Some st,
                     logs := l, posts := p, runAuto := \<not> approval_required c\<rparr>"
    and "window (loadAll w rm rc rs rst rl rp) = window w"
    and "location (loadAll w rm rc rs rst rl rp) = location w"
  using assms by (simp_all add: loadAll_def apiFetch_def Let_def Promise_all_def setters)

lemma loadAll_rest_rejected:
  assumes "apiFetch_result (outcome rm) = Inr m"
    and "snd (Promise_all (arrives rc, apiFetch_result (outcome rc))
          (Promise_all (arrives rs, apiFetch_result (outcome rs))
            (Promise_all (arrives rst, apiFetch_result (outcome rst))
              (Promise_all (arrives rl, apiFetch_result (outcome rl))
                 (arrives rp, apiFetch_result (outcome rp)))))) = Inl e"
  shows "page (loadAll w rm rc rs rst rl rp) = (page w)\<lparr>me := Some m, err := Some (String_of e)\<rparr>"
    and "getToken (loadAll w rm rc rs rst rl rp) = None"
    and "location (loadAll w rm rc rs rst rl rp) = ''/login''"
  using assms by (simp_all add: loadAll_def apiFetch_def Let_def setters)

lemma loadAll_rejected:
  assumes "\<not> (fulfilled rm \<and> fulfilled rc \<and> fulfilled rs \<and> fulfilled rst \<and> fulfilled rl \<and> fulfilled rp)"
  shows "\<exists>e m'. Some e \<in> {rejection rm, rejection rc, rejection rs, rejection rst,
                          rejection rl, rejection rp}
          \<and> page (loadAll w rm rc rs rst rl rp) = (page w)\<lparr>me := m', err := Some (String_of e)\<rparr>
          \<and> getToken (loadAll w rm rc rs rst rl rp) = None
          \<and> location (loadAll w rm rc rs rst rl rp) = ''/login''"
proof (cases "apiFetch_result (outcome rm)")
  case (Inl e)
  let ?w' = "loadAll w rm rc rs rst rl rp"
  from Inl have "rejection rm = Some e" by (simp add: rejection_iff)
  then have "Some e \<in> {rejection rm, rejection rc, rejection rs, rejection rst,
                          rejection rl, rejection rp}" by simp
  moreover have "page ?w' = (page w)\<lparr>me := me (page w), err := Some (String_of e)\<rparr>"
    by (simp add: loadAll_me_rejected [OF Inl] setters)
  moreover have "getToken ?w' = None" "location ?w' = ''/login''"
    by (simp_all add: loadAll_me_rejected [OF Inl])
  ultimately show ?thesis by blast
next
  case (Inr m)
  with assms have "\<not> (fulfilled rc \<and> fulfilled rs \<and> fulfilled rst \<and> fulfilled rl \<and> fulfilled rp)"
    by (simp add: fulfilled_iff)
  then have "\<exists>e. snd (Promise_all (arrives rc, apiFetch_result (outcome rc))
        (Promise_all (arrives rs, apiFetch_result (outcome rs))
          (Promise_all (arrives rst, apiFetch_result (outcome rst))
            (Promise_all (arrives rl, apiFetch_result (outcome rl))
               (arrives rp, apiFetch_result (outcome rp)))))) = Inl e"
    by (simp add: Promise_all_Inl_iff not_fulfilled_iff)
  then obtain e where e: "snd (Promise_all (arrives rc, apiFetch_result (outcome rc))
        (Promise_all (arrives rs, apiFetch_result (outcome rs))
          (Promise_all (arrives rst, apiFetch_result (outcome rst))
            (Promise_all (arrives rl, apiFetch_result (outcome rl))
               (arrives rp, apiFetch_result (outcome rp)))))) = Inl e" ..
  then have "apiFetch_result (outcome rc) = Inl e \<or> apiFetch_result (outcome rs) = Inl e
      \<or> apiFetch_result (outcome rst) = Inl e \<or> apiFetch_result (outcome rl) = Inl e
      \<or> apiFetch_result (outcome rp) = Inl e"
    by (auto dest!: Promise_all_Inl)
  then have "Some e \<in> {rejection rm, rejection rc, rejection rs, rejection rst,
                          rejection rl, rejection rp}"
    by (auto simp: rejection_iff [symmetric])
  with loadAll_rest_rejected [OF Inr e, of w] show ?thesis
    by blast
qed

text \<open>A save that is not sent, or that fails, leaves Config and run mode as they are.\<close>

lemma saveConfig_rejected:
  "cfg (page w) = None \<or> \<not> fulfilled r \<Longrightarrow>
   runAuto (page (saveConfig w r)) = runAuto (page w) \<and> cfg (page (saveConfig w r)) = cfg (page w)"
  by (auto simp: saveConfig_def apiFetch_def Let_def setters not_fulfilled_iff
      split: option.splits)

subsection \<open>approve and clearLogs\<close>

lemma approve_rejected:
  assumes "apiFetch_result (outcome r) = Inl e"
  shows "approve i w r r' =
     setErr (Some (String_of e))
       (apiFetch_send (setErr None w) (''/api/posts/'' @ string_of_nat i @ ''/approve'')
          (POST body_empty))"
  using assms by (simp add: approve_def apiFetch_def Let_def)

lemma approve_fulfilled:
  assumes "apiFetch_result (outcome r) = Inr u"
  shows "approve i w r r' =
     (let w3 = apiFetch_send
                 (apiFetch_send (setErr None w)
                    (''/api/posts/'' @ string_of_nat i @ ''/approve'') (POST body_empty))
                 ''/api/posts'' GET
      in case apiFetch_result (outcome r') of
           Inl e \<Rightarrow> setErr (Some (String_of e)) w3
         | Inr ps \<Rightarrow> setPosts ps w3)"
  using assms by (simp add: approve_def apiFetch_def Let_def)

lemma clearLogs_rejected:
  "apiFetch_result (outcome r) = Inl e \<Longrightarrow>
   page (clearLogs w r r') = page w \<and> unhandled (clearLogs w r r') = unhandled w @ [e]"
  by (simp add: clearLogs_def apiFetch_def Let_def)

text \<open>
  The four handlers with a catch block show the error of their first request when it
  fails.
\<close>

lemma handlers_with_catch_report:
  "(cfg (page w) \<noteq> None \<and> apiFetch_result (outcome r0) = Inl e \<longrightarrow>
      err (page (saveConfig w r0)) = Some (String_of e))
   \<and> (apiFetch_result (outcome r1) = Inl e \<longrightarrow> err (page (addSource w r1 r2)) = Some (String_of e))
   \<and> (apiFetch_result (outcome r3) = Inl e \<longrightarrow> err (page (runNow w r3)) = Some (String_of e))
   \<and> (apiFetch_result (outcome r4) = Inl e \<longrightarrow> err (page (approve i w r4 r5)) = Some (String_of e))"
  by (auto simp add: saveConfig_def addSource_def runNow_def runNow_begin_def runNow_settle_def
      approve_def apiFetch_def Let_def setters)

subsection \<open>runNow\<close>

lemma runNow_begin_sent:
  "sent (runNow_begin w) =
     sent w @ [apiFetch_request w ''/api/run'' (POST (body_run (runAuto (page w))))]"
  by (simp add: runNow_begin_def)

lemma runNow_begin_fields [simp]:
  "runAuto (page (runNow_begin w)) = runAuto (page w)"
  "window (runNow_begin w) = window w"
  "NEXT_PUBLIC_API_URL (runNow_begin w) = NEXT_PUBLIC_API_URL w"
  by (simp_all add: runNow_begin_def setters)

lemma runNow_settle_sent [simp]: "sent (runNow_settle w r) = sent w"
  by (simp add: runNow_settle_def split: sum.splits)

lemma runNow_settle_fields [simp]:
  "runAuto (page (runNow_settle w r)) = runAuto (page w)"
  "window (runNow_settle w r) = window w"
  "NEXT_PUBLIC_API_URL (runNow_settle w r) = NEXT_PUBLIC_API_URL w"
  by (simp_all add: runNow_settle_def setters split: sum.splits)

subsection \<open>The poll cycle\<close>

lemma poll_tick_sent:
  "sent (poll_tick w rl rp rst) = sent w @
     [apiFetch_request w ''/api/logs'' GET, apiFetch_request w ''/api/posts'' GET,
      apiFetch_request w ''/api/stats'' GET]"
  by (simp add: poll_tick_def apiFetch_def Let_def split: sum.splits)

lemma poll_tick_fulfilled:
  assumes "apiFetch_result (outcome rl) = Inr l" "apiFetch_result (outcome rp) = Inr p"
    "apiFetch_result (outcome rst) = Inr st"
  shows "poll_tick w rl rp rst =
     setStats (Some st) (setPosts p (setLogs l
       (apiFetch_send (apiFetch_send (apiFetch_send w ''/api/logs'' GET) ''/api/posts'' GET)
          ''/api/stats'' GET)))"
  using assms by (simp add: poll_tick_def apiFetch_def Let_def Promise_all_def)

lemma poll_tick_rejected:
  assumes "\<not> (fulfilled rl \<and> fulfilled rp \<and> fulfilled rst)"
  shows "poll_tick w rl rp rst =
     apiFetch_send (apiFetch_send (apiFetch_send w ''/api/logs'' GET) ''/api/posts'' GET)
       ''/api/stats'' GET"
proof -
  from assms have "\<exists>e. snd (Promise_all (arrives rl, apiFetch_result (outcome rl))
       (Promise_all (arrives rp, apiFetch_result (outcome rp))
          (arrives rst, apiFetch_result (outcome rst)))) = Inl e"
    by (simp add: Promise_all_Inl_iff not_fulfilled_iff)
  then show ?thesis
    by (auto simp add: poll_tick_def apiFetch_def Let_def)
qed

lemma poll_tick_frame:
  "me (page (poll_tick w rl rp rst)) = me (page w)"
  "cfg (page (poll_tick w rl rp rst)) = cfg (page w)"
  "sources (page (poll_tick w rl rp rst)) = sources (page w)"
  "tab (page (poll_tick w rl rp rst)) = tab (page w)"
  "runAuto (page (poll_tick w rl rp rst)) = runAuto (page w)"
  "runLoading (page (poll_tick w rl rp rst)) = runLoading (page w)"
  "err (page (poll_tick w rl rp rst)) = err (page w)"
  "newPlatform (page (poll_tick w rl rp rst)) = newPlatform (page w)"
  "newHandle (page (poll_tick w rl rp rst)) = newHandle (page w)"
  "window (poll_tick w rl rp rst) = window w"
  "location (poll_tick w rl rp rst) = location w"
  "unhandled (poll_tick w rl rp rst) = unhandled w"
  "poll_timer (poll_tick w rl rp rst) = poll_timer w"
  by (simp_all add: poll_tick_def apiFetch_def Let_def setters split: sum.splits)

subsection \<open>Which events write which cell\<close>

lemma step_runAuto:
  assumes "\<not> resets_runAuto w e"
  shows "runAuto (page (step w e)) = runAuto (page w)"
proof (cases e)
  case (mount rm rc rs rst rl rp)
  with assms have "\<not> (fulfilled rm \<and> fulfilled rc \<and> fulfilled rs \<and> fulfilled rst
      \<and> fulfilled rl \<and> fulfilled rp)" by simp
  from loadAll_rejected [OF this, of "mount_polling w"] obtain e' m' where
    "page (loadAll (mount_polling w) rm rc rs rst rl rp) =
       (page (mount_polling w))\<lparr>me := m', err := Some (String_of e')\<rparr>" by blast
  with mount show ?thesis by (simp add: mount_polling_def)
next
  case (do_saveConfig r)
  with assms have "cfg (page w) = None \<or> \<not> fulfilled r" by simp
  with do_saveConfig show ?thesis by (simp add: saveConfig_rejected)
next
  case (change_mode v)
  with assms show ?thesis by simp
qed (simp_all add: poll_tick_frame addSource_def runNow_def runNow_begin_def runNow_settle_def
        approve_def clearLogs_def logout_def onChange_approval_required_def
        onChange_interval_days_def onChange_max_candidates_def onChange_pick_top_n_def
        unmount_polling_def apiFetch_def Let_def setters split: sum.splits option.splits)

lemma step_cfg:
  "\<not> is_mount e \<Longrightarrow> \<not> is_saveConfig e \<Longrightarrow> \<not> edits_settings e \<Longrightarrow>
   cfg (page (step w e)) = cfg (page w)"
  by (cases e)
     (simp_all add: poll_tick_frame addSource_def runNow_def runNow_begin_def runNow_settle_def
        approve_def clearLogs_def logout_def onChange_mode_def
        unmount_polling_def apiFetch_def Let_def setters split: sum.splits option.splits)

lemma step_sources:
  "\<not> is_mount e \<Longrightarrow> \<not> is_addSource e \<Longrightarrow> sources (page (step w e)) = sources (page w)"
  by (cases e)
     (simp_all add: poll_tick_frame saveConfig_def runNow_def runNow_begin_def runNow_settle_def
        approve_def clearLogs_def logout_def onChange_mode_def onChange_approval_required_def
        onChange_interval_days_def onChange_max_candidates_def onChange_pick_top_n_def
        unmount_polling_def apiFetch_def Let_def setters split: sum.splits option.splits)

lemma run_runAuto:
  "no_reset w es \<Longrightarrow> runAuto (page (run w es)) = runAuto (page w)"
  unfolding run_def
  by (induction es arbitrary: w) (simp_all add: step_runAuto)

subsection \<open>The buttons\<close>

lemma bex_onClick: "(\<exists>b\<in>set bs. onClick b = c) \<longleftrightarrow> c \<in> set (map onClick bs)"
  by (induction bs) auto

lemma card_clicks:
  "map onClick (queue_card_buttons p) =
     (if status p = ''awaiting_approval'' then [click_approve (candidate_id p)] else [])"
  by (simp add: queue_card_buttons_def button_def)

lemma queue_clicks:
  "click_approve i \<in> set (map onClick (concat (map queue_card_buttons ps))) \<longleftrightarrow>
   (\<exists>p\<in>set ps. candidate_id p = i \<and> status p = ''awaiting_approval'')"
proof (induction ps)
  case Nil
  show ?case by simp
next
  case (Cons p ps)
  show ?case
  proof (cases "status p = ''awaiting_approval''")
    case True
    with Cons show ?thesis by (simp add: card_clicks) blast
  next
    case False
    with Cons show ?thesis by (simp add: card_clicks)
  qed
qed

lemma render_clicks:
  "click_approve i \<in> set (map onClick (render_buttons s)) \<longleftrightarrow>
     tab s = tab_queue
     \<and> click_approve i \<in> set (map onClick (concat (map queue_card_buttons (posts s))))"
  by (cases "tab s"; cases "cfg s") (simp_all add: render_buttons_def button_def)


section \<open>C1: failures of the API gateway client\<close>

text \<open>
  C1, as the specification states it: an unauthorized or forbidden status makes the call
  fail with an AuthError, any other status outside 200..299 with a RequestError that
  carries status and body, so that a caller can tell the two apart. The code has one
  kind of failure only: at status 401 and at status 500 with the same body text the call
  fails with the very same \<open>Error\<close> value, which carries neither a kind nor the status.
\<close>

theorem apiFetch_401_and_500_fail_alike:
  "apiFetch_result (fetch_resolved \<lparr>res_status = 401, res_text = ''denied'', res_json = Inr ()\<rparr>)
     = Inl (Error ''Error'' ''denied'')
   \<and> apiFetch_result (fetch_resolved \<lparr>res_status = 500, res_text = ''denied'', res_json = Inr ()\<rparr>)
     = Inl (Error ''Error'' ''denied'')"
  by (simp add: apiFetch_result_def ok_def new_Error_def)

text \<open>
  C1, amended: every response whose status is outside 200..299, 401 and 403 included,
  makes the call fail with a plain \<open>Error\<close> whose message is the body text, or
  \<open>HTTP <status>\<close> when the body is empty. The failure does not depend on the request,
  and nothing else of the response reaches the caller.
\<close>

theorem apiFetch_not_ok_throws_Error:
  "\<not> ok res \<Longrightarrow>
     apiFetch_result (fetch_resolved res) =
       Inl (Error ''Error'' (if res_text res \<noteq> [] then res_text res
                             else ''HTTP '' @ string_of_nat (res_status res)))
     \<and> snd (snd (apiFetch w path init \<lparr>arrives = t, outcome = fetch_resolved res\<rparr>)) =
       apiFetch_result (fetch_resolved res)"
  by (simp add: apiFetch_result_def apiFetch_def new_Error_def)

text \<open>The amended C1 at a forbidden response with an empty body.\<close>

theorem apiFetch_not_ok_throws_Error_witness:
  "\<not> ok \<lparr>res_status = 403, res_text = [], res_json = Inr ()\<rparr>
   \<and> apiFetch_result (fetch_resolved \<lparr>res_status = 403, res_text = [], res_json = Inr ()\<rparr>)
     = Inl (Error ''Error'' ''HTTP 403'')"
  using apiFetch_not_ok_throws_Error [of "\<lparr>res_status = 403, res_text = [], res_json = Inr ()\<rparr>"]
  by (simp add: ok_def string_of_nat.simps)


section \<open>C2: failure of the initial load\<close>

text \<open>
  C2, as the specification states it: when a fetch of the initial load fails, the load
  fails and the error is reported, and the credential is cleared (with the redirect to
  the login page) only when the failure is an AuthError; any other failure leaves the
  credential in place. In the code the catch block of \<open>loadAll\<close> clears it whatever was
  thrown: here the identity is fetched, the Config request is answered with status 500,
  and the token that was stored is gone and the router is at the login page.
\<close>

theorem loadAll_status_500_clears_token:
  "getToken world1 = Some ''secret''
   \<and> rejection (failed_reply 500 ''boom'' :: Config reply) = Some (Error ''Error'' ''boom'')
   \<and> getToken (loadAll world1 (ok_reply me1) (failed_reply 500 ''boom'') (ok_reply [])
        (ok_reply stats0) (ok_reply []) (ok_reply [])) = None
   \<and> location (loadAll world1 (ok_reply me1) (failed_reply 500 ''boom'') (ok_reply [])
        (ok_reply stats0) (ok_reply []) (ok_reply [])) = ''/login''"
proof (intro conjI)
  show "getToken world1 = Some ''secret''" by (simp add: getToken_def)
  show "rejection (failed_reply 500 ''boom'' :: Config reply) = Some (Error ''Error'' ''boom'')"
    by (simp add: rejection_def)
  show "getToken (loadAll world1 (ok_reply me1) (failed_reply 500 ''boom'') (ok_reply [])
        (ok_reply stats0) (ok_reply []) (ok_reply [])) = None"
    by (simp add: loadAll_def apiFetch_def Let_def Promise_all_def)
  show "location (loadAll world1 (ok_reply me1) (failed_reply 500 ''boom'') (ok_reply [])
        (ok_reply stats0) (ok_reply []) (ok_reply [])) = ''/login''"
    by (simp add: loadAll_def apiFetch_def Let_def Promise_all_def)
qed

text \<open>
  C2, amended: when any fetch of the initial load fails (the identity, or one of the five
  concurrent ones), the load fails as a whole: the error of a failed call is reported,
  none of Config, sources, stats, logs, candidates and run mode is written, and the
  stored credential is cleared with a redirect to the login page, whatever the kind of
  the failure. When all six are fulfilled, the credential and the location stay and no
  error is shown.
\<close>

theorem loadAll_failure_clears_token:
  "(fulfilled rm \<and> fulfilled rc \<and> fulfilled rs \<and> fulfilled rst \<and> fulfilled rl \<and> fulfilled rp \<longrightarrow>
      window (loadAll w rm rc rs rst rl rp) = window w
      \<and> location (loadAll w rm rc rs rst rl rp) = location w
      \<and> err (page (loadAll w rm rc rs rst rl rp)) = None)
   \<and> (\<not> (fulfilled rm \<and> fulfilled rc \<and> fulfilled rs \<and> fulfilled rst \<and> fulfilled rl \<and> fulfilled rp) \<longrightarrow>
      (\<exists>e. Some e \<in> {rejection rm, rejection rc, rejection rs, rejection rst, rejection rl, rejection rp}
           \<and> err (page (loadAll w rm rc rs rst rl rp)) = Some (String_of e))
      \<and> getToken (loadAll w rm rc rs rst rl rp) = None
      \<and> location (loadAll w rm rc rs rst rl rp) = ''/login''
      \<and> cfg (page (loadAll w rm rc rs rst rl rp)) = cfg (page w)
      \<and> sources (page (loadAll w rm rc rs rst rl rp)) = sources (page w)
      \<and> stats (page (loadAll w rm rc rs rst rl rp)) = stats (page w)
      \<and> logs (page (loadAll w rm rc rs rst rl rp)) = logs (page w)
      \<and> posts (page (loadAll w rm rc rs rst rl rp)) = posts (page w)
      \<and> runAuto (page (loadAll w rm rc rs rst rl rp)) = runAuto (page w))"
proof (intro conjI impI)
  assume "fulfilled rm \<and> fulfilled rc \<and> fulfilled rs \<and> fulfilled rst \<and> fulfilled rl \<and> fulfilled rp"
  then obtain m c s st l p where
    "apiFetch_result (outcome rm) = Inr m" "apiFetch_result (outcome rc) = Inr c"
    "apiFetch_result (outcome rs) = Inr s" "apiFetch_result (outcome rst) = Inr st"
    "apiFetch_result (outcome rl) = Inr l" "apiFetch_result (outcome rp) = Inr p"
    unfolding fulfilled_iff by blast
  note all = loadAll_fulfilled [OF this, of w]
  show "window (loadAll w rm rc rs rst rl rp) = window w" by (rule all)
  show "location (loadAll w rm rc rs rst rl rp) = location w" by (rule all)
  show "err (page (loadAll w rm rc rs rst rl rp)) = None" by (simp add: all)
next
  let ?w' = "loadAll w rm rc rs rst rl rp"
  let ?rejections = "{rejection rm, rejection rc, rejection rs, rejection rst, rejection rl, rejection rp}"
  assume some: "\<not> (fulfilled rm \<and> fulfilled rc \<and> fulfilled rs \<and> fulfilled rst \<and> fulfilled rl \<and> fulfilled rp)"
  from loadAll_rejected [OF some, of w]
  obtain e m' where e: "Some e \<in> ?rejections"
    and pg: "page ?w' = (page w)\<lparr>me := m', err := Some (String_of e)\<rparr>"
    and tk: "getToken ?w' = None" and loc: "location ?w' = ''/login''"
    by blast
  from pg have "err (page ?w') = Some (String_of e)" by simp
  with e show "\<exists>e. Some e \<in> ?rejections \<and> err (page ?w') = Some (String_of e)"
    by blast
  show "getToken ?w' = None" by (rule tk)
  show "location ?w' = ''/login''" by (rule loc)
  show "cfg (page ?w') = cfg (page w)" by (simp add: pg)
  show "sources (page ?w') = sources (page w)" by (simp add: pg)
  show "stats (page ?w') = stats (page w)" by (simp add: pg)
  show "logs (page ?w') = logs (page w)" by (simp add: pg)
  show "posts (page ?w') = posts (page w)" by (simp add: pg)
  show "runAuto (page ?w') = runAuto (page w)" by (simp add: pg)
qed

text \<open>
  The amended C2 at two loads of the same page: one whose logs request is answered with
  status 500, and one where all six requests succeed.
\<close>

theorem loadAll_failure_clears_token_witness:
  "\<not> fulfilled (failed_reply 500 ''boom'' :: LogEvent list reply)
   \<and> err (page (loadAll world1 (ok_reply me1) (ok_reply config1) (ok_reply []) (ok_reply stats0)
        (failed_reply 500 ''boom'') (ok_reply []))) = Some ''boom''
   \<and> getToken (loadAll world1 (ok_reply me1) (ok_reply config1) (ok_reply []) (ok_reply stats0)
        (failed_reply 500 ''boom'') (ok_reply [])) = None
   \<and> posts (page (loadAll world1 (ok_reply me1) (ok_reply config1) (ok_reply []) (ok_reply stats0)
        (failed_reply 500 ''boom'') (ok_reply []))) = [candidate 42 ''awaiting_approval'']
   \<and> window (loadAll world1 (ok_reply me1) (ok_reply config1) (ok_reply []) (ok_reply stats0)
        (ok_reply []) (ok_reply [])) = Some [''token'' \<mapsto> ''secret'']
   \<and> location (loadAll world1 (ok_reply me1) (ok_reply config1) (ok_reply []) (ok_reply stats0)
        (ok_reply []) (ok_reply [])) = ''/dashboard''"
  using loadAll_failure_clears_token [of "ok_reply me1" "ok_reply config1" "ok_reply []"
      "ok_reply stats0" "failed_reply 500 ''boom''" "ok_reply []" world1]
    loadAll_failure_clears_token [of "ok_reply me1" "ok_reply config1" "ok_reply []"
      "ok_reply stats0" "ok_reply []" "ok_reply []" world1]
  by (simp add: fulfilled_def rejection_def String_of_def initial_page_def)


section \<open>C3: approve and the candidates resource\<close>

text \<open>
  C3, as the specification states it: after \<open>approve(id)\<close> resolves, whether it succeeded
  or failed with a displayed error, the candidates are fetched again, so that the local
  list matches the server's. In the code the fetch stands inside the try block, after the
  approve request: when that request fails, here with status 500 for candidate 42, the
  error is displayed, the approve request is the only one sent, and the local list keeps
  the candidate as awaiting approval, whatever the server would have answered.
\<close>

theorem approve_failure_skips_refetch:
  "map url (sent (approve 42 world1 (failed_reply 500 ''boom'') (ok_reply [candidate 42 ''published''])))
     = [''http://localhost:8000/api/posts/42/approve'']
   \<and> posts (page (approve 42 world1 (failed_reply 500 ''boom'') (ok_reply [candidate 42 ''published''])))
     = [candidate 42 ''awaiting_approval'']
   \<and> err (page (approve 42 world1 (failed_reply 500 ''boom'') (ok_reply [candidate 42 ''published''])))
     = Some ''boom''"
  by (simp add: approve_rejected setters String_of_def apiFetch_request_def API_URL_def
      string_of_nat.simps)

text \<open>
  C3, amended: for every candidate id, when the approve request of \<open>approve(id)\<close> succeeds,
  the candidates resource is fetched again, once, and the local list is replaced by the
  fetched one when that fetch succeeds (and kept, with the error displayed, when it
  fails). When the approve request fails, the error is displayed, no fetch follows, and
  the local list stays as it was.
\<close>

theorem approve_refetches_after_success:
  "(fulfilled r \<longrightarrow>
      sent (approve i w r r') = sent w @
        [apiFetch_request w (''/api/posts/'' @ string_of_nat i @ ''/approve'') (POST body_empty),
         apiFetch_request w ''/api/posts'' GET]
      \<and> (\<forall>ps. apiFetch_result (outcome r') = Inr ps \<longrightarrow>
             posts (page (approve i w r r')) = ps \<and> err (page (approve i w r r')) = None)
      \<and> (\<forall>e. apiFetch_result (outcome r') = Inl e \<longrightarrow>
             posts (page (approve i w r r')) = posts (page w)
             \<and> err (page (approve i w r r')) = Some (String_of e)))
   \<and> (\<forall>e. apiFetch_result (outcome r) = Inl e \<longrightarrow>
      sent (approve i w r r') = sent w @
        [apiFetch_request w (''/api/posts/'' @ string_of_nat i @ ''/approve'') (POST body_empty)]
      \<and> posts (page (approve i w r r')) = posts (page w)
      \<and> err (page (approve i w r r')) = Some (String_of e))"
proof (intro conjI impI allI)
  assume "fulfilled r"
  then obtain u where u: "apiFetch_result (outcome r) = Inr u" by (auto simp: fulfilled_iff)
  show "sent (approve i w r r') = sent w @
        [apiFetch_request w (''/api/posts/'' @ string_of_nat i @ ''/approve'') (POST body_empty),
         apiFetch_request w ''/api/posts'' GET]"
    by (simp add: approve_fulfilled [OF u] Let_def split: sum.splits)
  { fix ps assume "apiFetch_result (outcome r') = Inr ps"
    then show "posts (page (approve i w r r')) = ps" "err (page (approve i w r r')) = None"
      by (simp_all add: approve_fulfilled [OF u] Let_def setters) }
  { fix e assume "apiFetch_result (outcome r') = Inl e"
    then show "posts (page (approve i w r r')) = posts (page w)"
      "err (page (approve i w r r')) = Some (String_of e)"
      by (simp_all add: approve_fulfilled [OF u] Let_def setters) }
next
  fix e assume e: "apiFetch_result (outcome r) = Inl e"
  show "sent (approve i w r r') = sent w @
        [apiFetch_request w (''/api/posts/'' @ string_of_nat i @ ''/approve'') (POST body_empty)]"
    by (simp add: approve_rejected [OF e])
  show "posts (page (approve i w r r')) = posts (page w)"
    by (simp add: approve_rejected [OF e] setters)
  show "err (page (approve i w r r')) = Some (String_of e)"
    by (simp add: approve_rejected [OF e] setters)
qed

text \<open>The amended C3 at an approval of candidate 42 that the server accepts.\<close>

theorem approve_refetches_after_success_witness:
  "fulfilled (ok_reply ())
   \<and> map url (sent (approve 42 world1 (ok_reply ()) (ok_reply [candidate 42 ''published''])))
     = [''http://localhost:8000/api/posts/42/approve'', ''http://localhost:8000/api/posts'']
   \<and> posts (page (approve 42 world1 (ok_reply ()) (ok_reply [candidate 42 ''published''])))
     = [candidate 42 ''published'']"
  using approve_refetches_after_success
    [of "ok_reply ()" 42 world1 "ok_reply [candidate 42 ''published'']"]
  by (simp add: fulfilled_def apiFetch_request_def API_URL_def string_of_nat.simps)


section \<open>C4: the effective run mode\<close>

text \<open>
  C4: every Config that is loaded or saved resets the effective run mode to the negation
  of its \<open>approval_required\<close> (for a save, of the Config the server returns); a load or a
  save that fails resets nothing. Between such resets the operator's choice in the mode
  select stands: as long as no load succeeds, no save succeeds and the select is not
  changed again, whatever else happens (failed saves, polling, edits of the settings
  form, approvals, added sources, runs, changes of tab), the chosen mode is kept and is
  the one the next run request carries, whatever the cached Config says.
\<close>

theorem runAuto_reset_and_override:
  "(\<forall>m c s st l p.
       apiFetch_result (outcome rm) = Inr m \<and> apiFetch_result (outcome rc) = Inr c
       \<and> apiFetch_result (outcome rs) = Inr s \<and> apiFetch_result (outcome rst) = Inr st
       \<and> apiFetch_result (outcome rl) = Inr l \<and> apiFetch_result (outcome rp) = Inr p \<longrightarrow>
       cfg (page (loadAll w rm rc rs rst rl rp)) = Some c
       \<and> runAuto (page (loadAll w rm rc rs rst rl rp)) = (\<not> approval_required c))
   \<and> (\<forall>c0 saved. cfg (page w) = Some c0 \<and> apiFetch_result (outcome r) = Inr saved \<longrightarrow>
       cfg (page (saveConfig w r)) = Some saved
       \<and> runAuto (page (saveConfig w r)) = (\<not> approval_required saved))
   \<and> (\<not> (fulfilled rm \<and> fulfilled rc \<and> fulfilled rs \<and> fulfilled rst \<and> fulfilled rl \<and> fulfilled rp) \<longrightarrow>
       runAuto (page (loadAll w rm rc rs rst rl rp)) = runAuto (page w))
   \<and> (cfg (page w) = None \<or> \<not> fulfilled r \<longrightarrow>
       runAuto (page (saveConfig w r)) = runAuto (page w))
   \<and> runAuto (page (onChange_mode v w)) = (v = ''auto'')
   \<and> (no_reset (onChange_mode v w) es \<longrightarrow>
        runAuto (page (run (onChange_mode v w) es)) = (v = ''auto'')
        \<and> req_body (last (sent (runNow_begin (run (onChange_mode v w) es))))
            = Some (body_run (v = ''auto'')))"
proof (intro conjI allI impI)
  fix m c s st l p
  assume "apiFetch_result (outcome rm) = Inr m \<and> apiFetch_result (outcome rc) = Inr c
       \<and> apiFetch_result (outcome rs) = Inr s \<and> apiFetch_result (outcome rst) = Inr st
       \<and> apiFetch_result (outcome rl) = Inr l \<and> apiFetch_result (outcome rp) = Inr p"
  then have pg: "page (loadAll w rm rc rs rst rl rp) =
           (page w)\<lparr>err := None, me := Some m, cfg := Some c, sources := s, stats := Some st,
                     logs := l, posts := p, runAuto := \<not> approval_required c\<rparr>"
    by (intro loadAll_fulfilled) simp_all
  show "cfg (page (loadAll w rm rc rs rst rl rp)) = Some c" by (simp add: pg)
  show "runAuto (page (loadAll w rm rc rs rst rl rp)) = (\<not> approval_required c)"
    by (simp add: pg)
next
  fix c0 saved
  assume "cfg (page w) = Some c0 \<and> apiFetch_result (outcome r) = Inr saved"
  then show "cfg (page (saveConfig w r)) = Some saved"
    "runAuto (page (saveConfig w r)) = (\<not> approval_required saved)"
    by (simp_all add: saveConfig_def apiFetch_def Let_def setters)
next
  assume "\<not> (fulfilled rm \<and> fulfilled rc \<and> fulfilled rs \<and> fulfilled rst \<and> fulfilled rl \<and> fulfilled rp)"
  from loadAll_rejected [OF this, of w] obtain e m' where
    "page (loadAll w rm rc rs rst rl rp) = (page w)\<lparr>me := m', err := Some (String_of e)\<rparr>"
    by blast
  then show "runAuto (page (loadAll w rm rc rs rst rl rp)) = runAuto (page w)" by simp
next
  assume "cfg (page w) = None \<or> \<not> fulfilled r"
  then show "runAuto (page (saveConfig w r)) = runAuto (page w)"
    by (simp add: saveConfig_rejected)
next
  show "runAuto (page (onChange_mode v w)) = (v = ''auto'')"
    by (simp add: onChange_mode_def setters)
next
  assume "no_reset (onChange_mode v w) es"
  then have "runAuto (page (run (onChange_mode v w) es)) = runAuto (page (onChange_mode v w))"
    by (rule run_runAuto)
  then show kept: "runAuto (page (run (onChange_mode v w) es)) = (v = ''auto'')"
    by (simp add: onChange_mode_def setters)
  show "req_body (last (sent (runNow_begin (run (onChange_mode v w) es))))
            = Some (body_run (v = ''auto''))"
    by (simp add: runNow_begin_sent kept)
qed

text \<open>
  C4 on a page whose cached Config requires approval and whose mode is manual: loading a
  Config without approval makes the mode automatic, and so does saving when the server
  returns such a Config; a save answered with status 500 leaves the mode manual. And
  after the operator selects the automatic mode, an opened settings tab, an edit of the
  form, a save that fails and a poll cycle later, the run request still asks for
  automatic publishing.
\<close>

theorem runAuto_reset_and_override_witness:
  "cfg (page world1) = Some config1
   \<and> approval_required config1
   \<and> runAuto (page world1) = False
   \<and> runAuto (page (loadAll world1 (ok_reply me1) (ok_reply (config1\<lparr>approval_required := False\<rparr>))
        (ok_reply []) (ok_reply stats0) (ok_reply []) (ok_reply []))) = True
   \<and> runAuto (page (saveConfig world1 (ok_reply (config1\<lparr>approval_required := False\<rparr>)))) = True
   \<and> \<not> fulfilled (failed_reply 500 ''boom'' :: Config reply)
   \<and> runAuto (page (saveConfig world1 (failed_reply 500 ''boom''))) = False
   \<and> no_reset (onChange_mode ''auto'' world1)
        [do_setTab tab_config, change_approval_required ''yes'',
         do_saveConfig (failed_reply 500 ''boom''),
         timer_fires (ok_reply []) (ok_reply []) (ok_reply stats0)]
   \<and> req_body (last (sent (runNow_begin (run (onChange_mode ''auto'' world1)
        [do_setTab tab_config, change_approval_required ''yes'',
         do_saveConfig (failed_reply 500 ''boom''),
         timer_fires (ok_reply []) (ok_reply []) (ok_reply stats0)])))) = Some (body_run True)"
  using runAuto_reset_and_override
     [of "ok_reply me1" "ok_reply (config1\<lparr>approval_required := False\<rparr>)" "ok_reply []"
      "ok_reply stats0" "ok_reply []" "ok_reply []" world1
      "ok_reply (config1\<lparr>approval_required := False\<rparr>)" "''auto''"
      "[do_setTab tab_config, change_approval_required ''yes'',
         do_saveConfig (failed_reply 500 ''boom''),
         timer_fires (ok_reply []) (ok_reply []) (ok_reply stats0)]"]
    runAuto_reset_and_override
     [of "ok_reply me1" "ok_reply config1" "ok_reply []"
      "ok_reply stats0" "ok_reply []" "ok_reply []" world1
      "failed_reply 500 ''boom''" "''auto''" "[]"]
  by (simp add: config1_def initial_page_def fulfilled_def)


section \<open>C5: errors of the mutating operations\<close>

text \<open>
  C5: each of save-config, add-source, run, approve and clear-logs shows its error when it
  fails and applies no local change before the server has confirmed; in particular a
  failed clear-logs call leaves the log list as it was and still reports the error.
  \<open>clearLogs\<close> is the one handler without a try block (the other four have one, see
  \<open>handlers_with_catch_report\<close>): when its request is answered with status 500, the log
  list is kept, but no error is shown and the rejection is left unhandled. The same reply
  to \<open>approve\<close> is displayed.
\<close>

theorem clearLogs_failure_not_reported:
  "err (page (clearLogs world1 (failed_reply 500 ''boom'') (ok_reply []))) = None
   \<and> unhandled (clearLogs world1 (failed_reply 500 ''boom'') (ok_reply []))
       = [Error ''Error'' ''boom'']
   \<and> logs (page (clearLogs world1 (failed_reply 500 ''boom'') (ok_reply []))) = logs (page world1)
   \<and> err (page (approve 42 world1 (failed_reply 500 ''boom'') (ok_reply []))) = Some ''boom''"
  by (simp add: clearLogs_def approve_rejected apiFetch_def Let_def setters initial_page_def
      String_of_def)


section \<open>C6: the pending candidates\<close>

text \<open>
  C6: for every list of candidates, \<open>pending\<close> holds exactly the candidates whose status
  is \<open>awaiting_approval\<close>, as many of them as the list has at its positions, and the card
  "Manual approvals" displays that number.
\<close>

theorem pending_is_awaiting_approval:
  "set (pending ps) = {p \<in> set ps. status p = ''awaiting_approval''}
   \<and> length (pending ps) = card {i. i < length ps \<and> status (ps ! i) = ''awaiting_approval''}
   \<and> manual_approvals_text s =
       (if card {i. i < length (posts s) \<and> status (posts s ! i) = ''awaiting_approval''} = 0
        then ''No pending approvals.''
        else ''You have '' @
             string_of_nat (card {i. i < length (posts s) \<and> status (posts s ! i) = ''awaiting_approval''})
             @ '' posts waiting.'')"
  by (simp add: pending_def manual_approvals_text_def length_filter_conv_card)

text \<open>C6 at ten candidates of which three await approval.\<close>

theorem pending_is_awaiting_approval_witness:
  "length ten_candidates = 10
   \<and> length (pending ten_candidates) = 3
   \<and> map candidate_id (pending ten_candidates) = [2, 5, 8]
   \<and> manual_approvals_text (initial_page\<lparr>posts := ten_candidates\<rparr>) = ''You have 3 posts waiting.''
   \<and> card {i. i < length ten_candidates \<and> status (ten_candidates ! i) = ''awaiting_approval''} = 3"
  using pending_is_awaiting_approval [of ten_candidates "initial_page\<lparr>posts := ten_candidates\<rparr>"]
  by (simp add: ten_candidates_def candidate_def pending_def manual_approvals_text_def
      string_of_nat.simps)


section \<open>C7: run requests\<close>

text \<open>
  C7: every invocation of \<open>runNow\<close> sends exactly one run request, with the body
  \<open>{auto_publish: m}\<close> for the run mode \<open>m\<close> of the page at that moment, whatever the
  cached Config is; settling a call sends nothing more. Two invocations with no reply
  awaited in between send two requests, also after both have settled: the handler does
  not deduplicate or debounce. With the mode switched between the two invocations, the
  two requests ask for automatic and for manual publishing, in this order.
\<close>

theorem runNow_one_request_per_call:
  "sent (runNow_begin w) =
     sent w @ [apiFetch_request w ''/api/run'' (POST (body_run (runAuto (page w))))]
   \<and> req_body (apiFetch_request w ''/api/run'' (POST (body_run (runAuto (page w)))))
       = Some (body_run (runAuto (page w)))
   \<and> sent (runNow_settle w r) = sent w
   \<and> sent (runNow w r) =
       sent w @ [apiFetch_request w ''/api/run'' (POST (body_run (runAuto (page w))))]
   \<and> sent (runNow_begin (setCfg c w)) =
       sent w @ [apiFetch_request w ''/api/run'' (POST (body_run (runAuto (page w))))]
   \<and> sent (runNow_settle (runNow_settle (runNow_begin (runNow_begin w)) r1) r2) =
       sent w @ [apiFetch_request w ''/api/run'' (POST (body_run (runAuto (page w)))),
                 apiFetch_request w ''/api/run'' (POST (body_run (runAuto (page w))))]
   \<and> map req_body (sent (runNow_begin (onChange_mode ''manual''
                             (runNow_begin (onChange_mode ''auto'' w))))) =
       map req_body (sent w) @ [Some (body_run True), Some (body_run False)]"
proof (intro conjI)
  show "sent (runNow_begin w) =
     sent w @ [apiFetch_request w ''/api/run'' (POST (body_run (runAuto (page w))))]"
    by (rule runNow_begin_sent)
  show "req_body (apiFetch_request w ''/api/run'' (POST (body_run (runAuto (page w)))))
       = Some (body_run (runAuto (page w)))" by simp
  show "sent (runNow_settle w r) = sent w" by simp
  show "sent (runNow w r) =
       sent w @ [apiFetch_request w ''/api/run'' (POST (body_run (runAuto (page w))))]"
    by (simp add: runNow_def runNow_begin_sent)
  show "sent (runNow_begin (setCfg c w)) =
       sent w @ [apiFetch_request w ''/api/run'' (POST (body_run (runAuto (page w))))]"
    by (simp add: runNow_begin_sent) (simp add: setters)
  have "apiFetch_request (runNow_begin w) ''/api/run'' (POST (body_run (runAuto (page w))))
      = apiFetch_request w ''/api/run'' (POST (body_run (runAuto (page w))))"
    by (rule apiFetch_request_cong) simp_all
  then show "sent (runNow_settle (runNow_settle (runNow_begin (runNow_begin w)) r1) r2) =
       sent w @ [apiFetch_request w ''/api/run'' (POST (body_run (runAuto (page w)))),
                 apiFetch_request w ''/api/run'' (POST (body_run (runAuto (page w))))]"
    by (simp add: runNow_begin_sent)
  show "map req_body (sent (runNow_begin (onChange_mode ''manual''
                             (runNow_begin (onChange_mode ''auto'' w))))) =
       map req_body (sent w) @ [Some (body_run True), Some (body_run False)]"
    by (simp add: runNow_begin_sent onChange_mode_def) (simp add: setters)
qed

text \<open>
  C7 on a page whose Config requires approval and whose run mode is manual: two
  overlapping runs, the second of which fails, send two requests for a manual run.
\<close>

theorem runNow_one_request_per_call_witness:
  "map url (sent (runNow_settle (runNow_settle (runNow_begin (runNow_begin world1))
       (ok_reply \<lparr>enqueued_job_id = 1\<rparr>)) (failed_reply 500 ''busy'')))
     = [''http://localhost:8000/api/run'', ''http://localhost:8000/api/run'']
   \<and> map req_body (sent (runNow_settle (runNow_settle (runNow_begin (runNow_begin world1))
       (ok_reply \<lparr>enqueued_job_id = 1\<rparr>)) (failed_reply 500 ''busy'')))
     = [Some (body_run False), Some (body_run False)]"
  using runNow_one_request_per_call [of world1 "ok_reply \<lparr>enqueued_job_id = 1\<rparr>" "Some config1"
      "ok_reply \<lparr>enqueued_job_id = 1\<rparr>" "failed_reply 500 ''busy''"]
  by (simp add: apiFetch_request_def API_URL_def POST_def initial_page_def)


section \<open>C8: the poll cycle\<close>

text \<open>
  C8: the timer is registered with a period of 4000 milliseconds. Each time it fires, the
  three requests for logs, candidates and stats are sent, all three whatever comes back.
  When all three succeed, each of the three local snapshots is replaced by what was
  fetched. When any of them fails, the page is exactly as before: no error is shown, no
  snapshot is changed, and nothing but the list of requests sent differs. In either case
  the timer stays registered and no rejection is left unhandled.
\<close>

theorem poll_tick_replaces_or_keeps:
  "poll_timer (mount_polling w) = Some 4000
   \<and> sent (poll_tick w rl rp rst) = sent w @
       [apiFetch_request w ''/api/logs'' GET, apiFetch_request w ''/api/posts'' GET,
        apiFetch_request w ''/api/stats'' GET]
   \<and> (\<forall>l p st. apiFetch_result (outcome rl) = Inr l \<and> apiFetch_result (outcome rp) = Inr p
         \<and> apiFetch_result (outcome rst) = Inr st \<longrightarrow>
         page (poll_tick w rl rp rst) = (page w)\<lparr>logs := l, posts := p, stats := Some st\<rparr>)
   \<and> (\<not> (fulfilled rl \<and> fulfilled rp \<and> fulfilled rst) \<longrightarrow>
         page (poll_tick w rl rp rst) = page w
         \<and> poll_tick w rl rp rst = w\<lparr>sent := sent (poll_tick w rl rp rst)\<rparr>)
   \<and> poll_timer (poll_tick w rl rp rst) = poll_timer w
   \<and> unhandled (poll_tick w rl rp rst) = unhandled w
   \<and> err (page (poll_tick w rl rp rst)) = err (page w)"
proof (intro conjI allI impI)
  show "poll_timer (mount_polling w) = Some 4000" by (simp add: mount_polling_def)
  show "sent (poll_tick w rl rp rst) = sent w @
       [apiFetch_request w ''/api/logs'' GET, apiFetch_request w ''/api/posts'' GET,
        apiFetch_request w ''/api/stats'' GET]" by (rule poll_tick_sent)
  show "poll_timer (poll_tick w rl rp rst) = poll_timer w" by (rule poll_tick_frame)
  show "unhandled (poll_tick w rl rp rst) = unhandled w" by (rule poll_tick_frame)
  show "err (page (poll_tick w rl rp rst)) = err (page w)" by (rule poll_tick_frame)
next
  fix l p st
  assume "apiFetch_result (outcome rl) = Inr l \<and> apiFetch_result (outcome rp) = Inr p
         \<and> apiFetch_result (outcome rst) = Inr st"
  then show "page (poll_tick w rl rp rst) = (page w)\<lparr>logs := l, posts := p, stats := Some st\<rparr>"
    by (simp add: poll_tick_fulfilled setters)
next
  assume "\<not> (fulfilled rl \<and> fulfilled rp \<and> fulfilled rst)"
  then show "page (poll_tick w rl rp rst) = page w"
    "poll_tick w rl rp rst = w\<lparr>sent := sent (poll_tick w rl rp rst)\<rparr>"
    by (simp_all add: poll_tick_rejected apiFetch_send_def)
qed

text \<open>
  C8 at two cycles on the same page: one whose candidates request is answered with status
  500, and one where all three requests succeed.
\<close>

theorem poll_tick_replaces_or_keeps_witness:
  "\<not> (fulfilled (ok_reply [] :: LogEvent list reply)
        \<and> fulfilled (failed_reply 500 ''boom'' :: Candidate list reply)
        \<and> fulfilled (ok_reply stats0))
   \<and> page (poll_tick world1 (ok_reply []) (failed_reply 500 ''boom'') (ok_reply stats0))
       = page world1
   \<and> page (poll_tick world1 (ok_reply []) (ok_reply [candidate 42 ''published''])
        (ok_reply stats0))
       = (page world1)\<lparr>logs := [], posts := [candidate 42 ''published''], stats := Some stats0\<rparr>"
  using poll_tick_replaces_or_keeps
      [of world1 "ok_reply []" "failed_reply 500 ''boom''" "ok_reply stats0"]
    poll_tick_replaces_or_keeps
      [of world1 "ok_reply []" "ok_reply [candidate 42 ''published'']" "ok_reply stats0"]
  by (simp add: fulfilled_def)


section \<open>C9: what polling leaves alone\<close>

text \<open>
  C9, as the specification states it: a poll cycle changes at most logs, candidates and
  stats, and the cached Config and the sources change only through the initial load, an
  explicit save or an explicit add. The second half fails for the cached Config: the
  controls of the settings form write it on every change (lines 207-223), before any
  save. Here the operator sets "Approval required" to "no".
\<close>

theorem settings_edit_changes_cfg:
  "cfg (page world1) = Some config1
   \<and> cfg (page (step world1 (change_approval_required ''no'')))
       = Some (config1\<lparr>approval_required := False\<rparr>)
   \<and> config1\<lparr>approval_required := False\<rparr> \<noteq> config1
   \<and> \<not> is_mount (change_approval_required ''no'')
   \<and> \<not> is_saveConfig (change_approval_required ''no'')
   \<and> \<not> is_addSource (change_approval_required ''no'')"
  by (simp add: onChange_approval_required_def setters config1_def)

text \<open>
  C9, amended: a poll cycle leaves the identity, the cached Config, the sources, the
  selected tab and the run mode as they are. Of all events of the page, only the initial
  load, a save and an edit in the settings form can change the cached Config, and only
  the initial load and an add can change the sources.
\<close>

theorem poll_frame_and_writers:
  "me (page (poll_tick w rl rp rst)) = me (page w)
   \<and> cfg (page (poll_tick w rl rp rst)) = cfg (page w)
   \<and> sources (page (poll_tick w rl rp rst)) = sources (page w)
   \<and> tab (page (poll_tick w rl rp rst)) = tab (page w)
   \<and> runAuto (page (poll_tick w rl rp rst)) = runAuto (page w)
   \<and> (cfg (page (step w e)) \<noteq> cfg (page w) \<longrightarrow> is_mount e \<or> is_saveConfig e \<or> edits_settings e)
   \<and> (sources (page (step w e)) \<noteq> sources (page w) \<longrightarrow> is_mount e \<or> is_addSource e)"
  using step_cfg [of e w] step_sources [of e w]
  by (auto simp: poll_tick_frame)

text \<open>The amended C9 at a save that changes the cached Config and an add that changes the sources.\<close>

theorem poll_frame_and_writers_witness:
  "cfg (page (step world1 (do_saveConfig (ok_reply (config1\<lparr>pick_top_n := 7\<rparr>)))))
     \<noteq> cfg (page world1)
   \<and> is_saveConfig (do_saveConfig (ok_reply (config1\<lparr>pick_top_n := 7\<rparr>)))
   \<and> sources (page (step world1 (do_addSource (ok_reply source1) (ok_reply [source1]))))
     \<noteq> sources (page world1)
   \<and> is_addSource (do_addSource (ok_reply source1) (ok_reply [source1]))"
  using poll_frame_and_writers [of world1 "ok_reply []" "ok_reply []" "ok_reply stats0"
      "do_saveConfig (ok_reply (config1\<lparr>pick_top_n := 7\<rparr>))"]
    poll_frame_and_writers [of world1 "ok_reply []" "ok_reply []" "ok_reply stats0"
      "do_addSource (ok_reply source1) (ok_reply [source1])"]
  by (simp add: saveConfig_def addSource_def apiFetch_def Let_def setters config1_def
      initial_page_def)


section \<open>C10: where approval is offered\<close>

text \<open>
  C10: a card of the queue holds a button exactly when its candidate awaits approval, and
  that button approves this candidate; and among all buttons of the rendered page, one
  that approves the id \<open>i\<close> exists exactly when the queue tab is selected and a candidate
  with the id \<open>i\<close> awaits approval. (The handler \<open>approve\<close> itself takes any id.)
\<close>

theorem approve_button_only_when_awaiting:
  "(queue_card_buttons p \<noteq> [] \<longleftrightarrow> status p = ''awaiting_approval'')
   \<and> (\<forall>b\<in>set (queue_card_buttons p). b = button (click_approve (candidate_id p)))
   \<and> ((\<exists>b\<in>set (render_buttons s). onClick b = click_approve i) \<longleftrightarrow>
        tab s = tab_queue
        \<and> (\<exists>p\<in>set (posts s). candidate_id p = i \<and> status p = ''awaiting_approval''))"
proof (intro conjI)
  show "queue_card_buttons p \<noteq> [] \<longleftrightarrow> status p = ''awaiting_approval''"
    by (simp add: queue_card_buttons_def)
  show "\<forall>b\<in>set (queue_card_buttons p). b = button (click_approve (candidate_id p))"
    by (simp add: queue_card_buttons_def)
  show "(\<exists>b\<in>set (render_buttons s). onClick b = click_approve i) \<longleftrightarrow>
        tab s = tab_queue
        \<and> (\<exists>p\<in>set (posts s). candidate_id p = i \<and> status p = ''awaiting_approval'')"
    by (simp only: bex_onClick render_clicks queue_clicks)
qed

text \<open>
  C10 at the queue of ten candidates: the three that await approval have a button,
  candidate 5 among them; the published candidate 7 has none.
\<close>

theorem approve_button_only_when_awaiting_witness:
  "map onClick (concat (map queue_card_buttons ten_candidates))
     = [click_approve 2, click_approve 5, click_approve 8]
   \<and> (\<exists>b\<in>set (render_buttons (initial_page\<lparr>tab := tab_queue, posts := ten_candidates\<rparr>)).
         onClick b = click_approve 5)
   \<and> \<not> (\<exists>b\<in>set (render_buttons (initial_page\<lparr>tab := tab_queue, posts := ten_candidates\<rparr>)).
         onClick b = click_approve 7)"
  using approve_button_only_when_awaiting [of "candidate 5 ''awaiting_approval''"
      "initial_page\<lparr>tab := tab_queue, posts := ten_candidates\<rparr>" 5]
    approve_button_only_when_awaiting [of "candidate 7 ''published''"
      "initial_page\<lparr>tab := tab_queue, posts := ten_candidates\<rparr>" 7]
  by (simp add: ten_candidates_def candidate_def queue_card_buttons_def button_def)

end
